theory Spec2Isabelle
  imports Main
begin

section \<open>XML values handled by the SOAP client\<close>

text \<open>
  The repository builds on Go's \<open>encoding/xml\<close>. Its values are modelled as the code
  sees them: \<open>xml.Name\<close> and \<open>xml.Attr\<close> as datatypes with the selectors of the Go
  fields, and the token stream of a decoder as a tree in document order. A node
  \<open>Element n as cs\<close> is the \<open>xml.StartElement\<close> with name \<open>n\<close> and attributes \<open>as\<close>,
  the tokens \<open>cs\<close> up to its matching \<open>xml.EndElement\<close>, and that end element; the
  other constructors are the tokens that are neither.
\<close>

datatype xml_Name = Name (Space: string) (Local: string)

datatype xml_Attr = Attr (AttrName: xml_Name) (Value: string)

datatype xml_node =
    Element xml_Name "xml_Attr list" "xml_node list"
  | CharData string
  | Comment string
  | ProcInst string string
  | Directive string

section \<open>Fault\<close>

record Fault =
  XMLName :: xml_Name
  Code :: string
  String :: string
  Actor :: string
  Detail :: string

text \<open>\<open>fmt.Sprintf("Soap Fault: %s: [%s] %s", f.Code, f.Actor, f.String)\<close>\<close>

definition Fault_Error :: "Fault \<Rightarrow> string" where
  "Fault_Error f = ''Soap Fault: '' @ Code f @ '': ['' @ Actor f @ ''] '' @ String f"

text \<open>The zero value \<open>&Fault{}\<close>.\<close>

definition Fault_zero :: Fault where
  "Fault_zero = \<lparr>XMLName = Name [] [], Code = [], String = [], Actor = [], Detail = []\<rparr>"

section \<open>Errors\<close>

text \<open>
  The errors a call can return: an \<open>xml.UnmarshalError\<close> with its text, an error of the
  decoder's other kinds (\<open>errors.New\<close>, syntax errors), an error of the transport, and a
  \<open>*Fault\<close>, which implements \<open>error\<close> through \<open>Fault.Error\<close>.
\<close>

datatype error =
    UnmarshalError string
  | LibError string
  | TransportError string
  | FaultError Fault

fun error_message :: "error \<Rightarrow> string" where
  "error_message (UnmarshalError s) = s"
| "error_message (LibError s) = s"
| "error_message (TransportError s) = s"
| "error_message (FaultError f) = Fault_Error f"

section \<open>Decoding a Fault element\<close>

text \<open>
  \<open>d.DecodeElement(b.Fault, &se)\<close> runs the library's struct rules on \<open>Fault\<close>: the start
  element must carry the name of the \<open>XMLName\<close> tag; each child element whose local name
  is that of a field tag stores the character data found directly inside it in that
  field (a later one overwrites an earlier one); every other child is skipped.
\<close>

definition soapenv_ns :: string where
  "soapenv_ns = ''http://schemas.xmlsoap.org/soap/envelope/''"

fun chardata_of :: "xml_node list \<Rightarrow> string" where
  "chardata_of [] = []"
| "chardata_of (CharData s # ns) = s @ chardata_of ns"
| "chardata_of (_ # ns) = chardata_of ns"

fun fault_fields :: "xml_node list \<Rightarrow> Fault \<Rightarrow> Fault" where
  "fault_fields [] f = f"
| "fault_fields (Element n as cs # ns) f =
     (if Local n = ''faultcode'' then fault_fields ns (f\<lparr>Code := chardata_of cs\<rparr>)
      else if Local n = ''faultstring'' then fault_fields ns (f\<lparr>String := chardata_of cs\<rparr>)
      else if Local n = ''faultactor'' then fault_fields ns (f\<lparr>Actor := chardata_of cs\<rparr>)
      else if Local n = ''detail'' then fault_fields ns (f\<lparr>Detail := chardata_of cs\<rparr>)
      else fault_fields ns f)"
| "fault_fields (_ # ns) f = fault_fields ns f"

definition decode_Fault :: "xml_node \<Rightarrow> Fault \<Rightarrow> error option \<times> Fault" where
  "decode_Fault se f =
     (case se of
        Element n as cs \<Rightarrow>
          if Local n \<noteq> ''Fault'' then
            (Some (UnmarshalError (''expected element type <Fault> but have <'' @ Local n @ ''>'')), f)
          else if Space n \<noteq> soapenv_ns then
            (Some (UnmarshalError (''expected element <Fault> in name space '' @ soapenv_ns
                     @ '' but have '' @ (if Space n = [] then ''no name space'' else Space n))), f)
          else (None, fault_fields cs (f\<lparr>XMLName := n\<rparr>))
      | _ \<Rightarrow> (Some (LibError ''expected start element''), f))"

section \<open>ResponseSOAPBody.UnmarshalXML\<close>

text \<open>
  \<open>Content\<close> is the \<open>interface{}\<close> holding the caller's destination: \<open>None\<close> is the nil
  interface, \<open>Some c\<close> a pointer to a structure whose present value is \<open>c\<close>. Decoding
  writes through that pointer, so the value of the destination is returned with the
  error. How an element is decoded into the destination depends on the destination's
  type; it is the parameter \<open>dc\<close>, which returns the library's error and the value the
  destination holds afterwards.
\<close>

record 'c ResponseSOAPBody =
  Fault :: "Fault option"
  Content :: "'c option"

type_synonym 'c content_decoder = "xml_node \<Rightarrow> 'c \<Rightarrow> error option \<times> 'c"

definition multiple_elements :: error where
  "multiple_elements = UnmarshalError
     ''Found multiple elements inside SOAP body; not wrapped-document/literal WS-I compliant''"

text \<open>
  The loop over \<open>d.Token()\<close>. The list holds the tokens after the body's start element;
  its end is the body's \<open>xml.EndElement\<close>, where the loop breaks. \<open>dest\<close> is the value
  behind the pointer the caller passed; it outlives \<open>b.Content = nil\<close>.
\<close>

fun body_loop :: "'c content_decoder \<Rightarrow> xml_node list \<Rightarrow> bool \<Rightarrow> 'c ResponseSOAPBody \<Rightarrow> 'c option
    \<Rightarrow> error option \<times> 'c ResponseSOAPBody \<times> 'c option" where
  "body_loop dc [] consumed b dest = (None, b, dest)"
| "body_loop dc (Element n as cs # ts) consumed b dest =
     (if consumed then (Some multiple_elements, b, dest)
      else if Space n = soapenv_ns \<and> Local n = ''Fault'' then
        (let b1 = b\<lparr>Fault := Some Fault_zero, Content := None\<rparr> in
         case decode_Fault (Element n as cs) Fault_zero of
           (Some err, f) \<Rightarrow> (Some err, b1\<lparr>Fault := Some f\<rparr>, dest)
         | (None, f) \<Rightarrow> body_loop dc ts True (b1\<lparr>Fault := Some f\<rparr>) dest)
      else
        (case Content b of
           None \<Rightarrow> (Some (LibError ''non-pointer passed to Unmarshal''), b, dest)
         | Some c \<Rightarrow>
             (case dc (Element n as cs) c of
                (Some err, c') \<Rightarrow> (Some err, b\<lparr>Content := Some c'\<rparr>, Some c')
              | (None, c') \<Rightarrow> body_loop dc ts True (b\<lparr>Content := Some c'\<rparr>) (Some c'))))"
| "body_loop dc (_ # ts) consumed b dest = body_loop dc ts consumed b dest"

definition UnmarshalXML :: "'c content_decoder \<Rightarrow> xml_node list \<Rightarrow> 'c ResponseSOAPBody \<Rightarrow> 'c option
    \<Rightarrow> error option \<times> 'c ResponseSOAPBody \<times> 'c option" where
  "UnmarshalXML dc ts b dest =
     (if Content b = None then
        (Some (UnmarshalError ''Content must be a pointer to a struct''), b, dest)
      else body_loop dc ts False b dest)"

section \<open>Parse\<close>

text \<open>
  \<open>xml.Unmarshal(data, env)\<close> on a \<open>ResponseSOAPEnvelope\<close>. Reading bytes into tokens is
  the library's work and is the parameter \<open>tok\<close>: the error the tokenizer reports, or
  the document element. The struct rules are written out: the document element must
  have the local name of the \<open>XMLName\<close> tag; a child with local name \<open>Header\<close> goes to
  \<open>ResponseSOAPHeader\<close>, whose one field is an \<open>interface{}\<close>, so all of it is skipped; a
  child with local name \<open>Body\<close> is handed to \<open>UnmarshalXML\<close>; anything else is skipped.

  The library decodes while it reads, so on a document that breaks off or is malformed
  after some element it returns the syntax error with the destination already holding
  what was decoded before. The model takes a document the tokenizer cannot read to the
  end as rejected before anything is decoded: what it says about the destination holds
  for the documents the tokenizer reads to the end (\<open>tok data = Inr doc\<close>), which are the
  ones the properties below are about, and for the empty input.
\<close>

type_synonym tokenizer = "string \<Rightarrow> error + xml_node"

fun envelope_fields :: "'c content_decoder \<Rightarrow> xml_node list \<Rightarrow> 'c ResponseSOAPBody \<Rightarrow> 'c option
    \<Rightarrow> error option \<times> 'c ResponseSOAPBody \<times> 'c option" where
  "envelope_fields dc [] b dest = (None, b, dest)"
| "envelope_fields dc (Element n as cs # ts) b dest =
     (if Local n = ''Header'' then envelope_fields dc ts b dest
      else if Local n = ''Body'' then
        (case UnmarshalXML dc cs b dest of
           (Some err, b', dest') \<Rightarrow> (Some err, b', dest')
         | (None, b', dest') \<Rightarrow> envelope_fields dc ts b' dest')
      else envelope_fields dc ts b dest)"
| "envelope_fields dc (_ # ts) b dest = envelope_fields dc ts b dest"

definition Unmarshal_Envelope :: "tokenizer \<Rightarrow> 'c content_decoder \<Rightarrow> string \<Rightarrow> 'c ResponseSOAPBody
    \<Rightarrow> 'c option \<Rightarrow> error option \<times> 'c ResponseSOAPBody \<times> 'c option" where
  "Unmarshal_Envelope tok dc data b dest =
     (case tok data of
        Inl err \<Rightarrow> (Some err, b, dest)
      | Inr (Element n as cs) \<Rightarrow>
          if Local n \<noteq> ''Envelope'' then
            (Some (UnmarshalError (''expected element type <Envelope> but have <'' @ Local n @ ''>'')),
             b, dest)
          else envelope_fields dc cs b dest
      | Inr _ \<Rightarrow> (Some (LibError ''EOF''), b, dest))"

text \<open>
  \<open>Parse(data, v)\<close> returns the error and the value the destination \<open>v\<close> holds when it
  returns.
\<close>

definition Parse :: "tokenizer \<Rightarrow> 'c content_decoder \<Rightarrow> string \<Rightarrow> 'c option
    \<Rightarrow> error option \<times> 'c option" where
  "Parse tok dc data v =
     (case Unmarshal_Envelope tok dc data \<lparr>Fault = None, Content = v\<rparr> v of
        (Some err, b, dest) \<Rightarrow> (Some err, dest)
      | (None, b, dest) \<Rightarrow>
          (case Fault b of
             Some fault \<Rightarrow> (Some (FaultError fault), dest)
           | None \<Rightarrow> (None, dest)))"

section \<open>Request\<close>

text \<open>
  The exported fields of \<open>Request\<close> are the ones the encoder sees. \<open>Header\<close> is the slice
  \<open>r.Header.Header\<close> (\<open>None\<close> is the nil slice), \<open>Body_Fault\<close> and \<open>Body_Content\<close> are
  \<open>r.Body.Fault\<close> and \<open>r.Body.Content\<close> (\<open>None\<close> is nil). The type \<open>'c\<close> is that of the
  content values, \<open>'h\<close> that of the header elements.
\<close>

record ('c, 'h) Request =
  Attributes :: "xml_Attr list"
  Header :: "'h list option"
  Body_Fault :: "Fault option"
  Body_Content :: "'c option"
  path :: string
  username :: string
  password :: string
  bearerToken :: string
  userAgent :: string
  contentType :: string
  action :: string

type_synonym ('c, 'h) request_option = "('c, 'h) Request \<Rightarrow> error option \<times> ('c, 'h) Request"

text \<open>
  \<open>NewRequest(path, body, header, options...)\<close>. The body of the function never reads
  \<open>options\<close>; the model takes the parameter and, as the code, leaves it unused.
\<close>

definition NewRequest :: "string \<Rightarrow> 'c option \<Rightarrow> 'h list option \<Rightarrow> ('c, 'h) request_option list
    \<Rightarrow> ('c, 'h) Request" where
  "NewRequest path' body header options =
     (let envelope = \<lparr>Attributes = [Attr (Name [] ''soapenv'') ''http://schemas.xmlsoap.org/soap/envelope/''],
                      Header = None, Body_Fault = None, Body_Content = None,
                      path = path', username = [], password = [], bearerToken = [],
                      userAgent = [], contentType = [], action = []\<rparr>;
          envelope = (if header \<noteq> None then envelope\<lparr>Header := header\<rparr> else envelope)
      in envelope\<lparr>Body_Content := body\<rparr>)"

text \<open>The options. Each returns the nil error and the request it has written to.\<close>

definition BasicAuth :: "string \<Rightarrow> string \<Rightarrow> ('c, 'h) request_option" where
  "BasicAuth username' password' request = (None, request\<lparr>username := username', password := password'\<rparr>)"

definition UserAgent :: "string \<Rightarrow> ('c, 'h) request_option" where
  "UserAgent userAgent' request = (None, request\<lparr>userAgent := userAgent'\<rparr>)"

definition ContentType :: "string \<Rightarrow> ('c, 'h) request_option" where
  "ContentType contentType' request = (None, request\<lparr>contentType := contentType'\<rparr>)"

definition Action :: "string \<Rightarrow> ('c, 'h) request_option" where
  "Action action' request = (None, request\<lparr>action := action'\<rparr>)"

definition BearerToken :: "string \<Rightarrow> ('c, 'h) request_option" where
  "BearerToken token request = (None, request\<lparr>bearerToken := token\<rparr>)"

text \<open>The loop that looks for an attribute with local name \<open>soapenv\<close>.\<close>

fun find_soapenv :: "xml_Attr list \<Rightarrow> bool \<Rightarrow> bool" where
  "find_soapenv [] found = found"
| "find_soapenv (attribute # attributes) found =
     find_soapenv attributes (if Local (AttrName attribute) = ''soapenv'' then True else found)"

text \<open>The loop that keeps the attributes whose local name is not \<open>soapenv\<close>.\<close>

fun remove_soapenv :: "xml_Attr list \<Rightarrow> xml_Attr list \<Rightarrow> xml_Attr list" where
  "remove_soapenv [] filtered = filtered"
| "remove_soapenv (attribute # requestAttributes) filtered =
     remove_soapenv requestAttributes
       (if Local (AttrName attribute) \<noteq> ''soapenv'' then filtered @ [attribute] else filtered)"

text \<open>
  \<open>AddAttributes(attributes...)\<close>, with the slices taken as values: this is what the
  function computes when the attributes passed in do not share their array with
  \<open>request.Attributes\<close> (see \<open>AddAttributes_mem\<close> below for the slices in memory).
\<close>

definition AddAttributes :: "xml_Attr list \<Rightarrow> ('c, 'h) request_option" where
  "AddAttributes attributes =
     (let found = find_soapenv attributes False
      in (\<lambda>request.
            let requestAttributes = Attributes request;
                requestAttributes = (if found then remove_soapenv requestAttributes [] else requestAttributes)
            in (None, request\<lparr>Attributes := requestAttributes @ attributes\<rparr>)))"

subsection \<open>The first version of NewRequest\<close>

text \<open>
  The older \<open>request.go\<close> has a \<open>Request\<close> with the same exported fields and \<open>path\<close> only,
  and a constructor that takes the attributes themselves; \<open>action\<close> is not read.
\<close>

record ('c, 'h) Request1 =
  Attributes1 :: "xml_Attr list"
  Header1 :: "'h list option"
  Body_Fault1 :: "Fault option"
  Body_Content1 :: "'c option"
  path1 :: string

definition NewRequest1 :: "string \<Rightarrow> 'c option \<Rightarrow> 'h list option \<Rightarrow> string \<Rightarrow> xml_Attr list
    \<Rightarrow> ('c, 'h) Request1" where
  "NewRequest1 path' body header action' attributes =
     (let found = find_soapenv attributes False;
          attributes = (if \<not> found
                        then attributes @ [Attr (Name [] ''soapenv'') ''http://schemas.xmlsoap.org/soap/envelope/'']
                        else attributes);
          envelope = \<lparr>Attributes1 = attributes, Header1 = None, Body_Fault1 = None,
                      Body_Content1 = None, path1 = path'\<rparr>;
          envelope = (if header \<noteq> None then envelope\<lparr>Header1 := header\<rparr> else envelope)
      in envelope\<lparr>Body_Content1 := body\<rparr>)"

section \<open>Serialize\<close>

text \<open>
  \<open>encoder.Encode(r)\<close> writes the struct by the library's rules, written out here on
  bytes. \<open>EscapeText\<close> is the library's escaping: the eight characters it names get
  their entities, and a control character below U+0020 other than those is replaced by
  U+FFFD (the three bytes EF BF BD). Bytes from 80 up are kept, as the library keeps
  valid UTF-8 of characters in the XML range; its replacement of invalid UTF-8, of
  surrogates and of U+FFFE and U+FFFF is left out. An attribute whose name
  has a name space gets a prefix the encoder makes up from the attributes written so
  far; that text is the parameter \<open>pfx\<close>. The header elements and the content are
  values of the caller's types: \<open>ench\<close> and \<open>encc\<close> give the bytes the encoder writes
  for them, or its error.
\<close>

fun escape_char :: "char \<Rightarrow> string" where
  "escape_char c =
     (if c = CHR ''\"'' then ''&#34;''
      else if c = CHR 0x27 then ''&#39;''
      else if c = CHR ''&'' then ''&amp;''
      else if c = CHR ''<'' then ''&lt;''
      else if c = CHR ''>'' then ''&gt;''
      else if c = CHR 0x09 then ''&#x9;''
      else if c = CHR 0x0A then ''&#xA;''
      else if c = CHR 0x0D then ''&#xD;''
      else if (of_char c :: nat) < 0x20 then [CHR 0xEF, CHR 0xBF, CHR 0xBD]
      else [c])"

definition EscapeText :: "string \<Rightarrow> string" where
  "EscapeText s = concat (map escape_char s)"

type_synonym attr_prefix = "xml_Attr list \<Rightarrow> string \<Rightarrow> string"

fun write_attrs :: "attr_prefix \<Rightarrow> xml_Attr list \<Rightarrow> xml_Attr list \<Rightarrow> string" where
  "write_attrs pfx written [] = []"
| "write_attrs pfx written (attr # attrs) =
     (if Local (AttrName attr) = [] then write_attrs pfx (written @ [attr]) attrs
      else '' '' @ (if Space (AttrName attr) \<noteq> [] then pfx written (Space (AttrName attr)) @ '':'' else [])
           @ Local (AttrName attr) @ ''=\"'' @ EscapeText (Value attr) @ ''\"''
           @ write_attrs pfx (written @ [attr]) attrs)"

text \<open>A slice is written element by element; the first error ends the encoding.\<close>

fun marshal_slice :: "('a \<Rightarrow> error + string) \<Rightarrow> 'a list \<Rightarrow> error + string" where
  "marshal_slice enc [] = Inr []"
| "marshal_slice enc (x # xs) =
     (case enc x of
        Inl err \<Rightarrow> Inl err
      | Inr s \<Rightarrow> (case marshal_slice enc xs of Inl err \<Rightarrow> Inl err | Inr s' \<Rightarrow> Inr (s @ s')))"

text \<open>A string field with \<open>omitempty\<close>.\<close>

definition marshal_field :: "string \<Rightarrow> string \<Rightarrow> string" where
  "marshal_field name v =
     (if v = [] then [] else ''<'' @ name @ ''>'' @ EscapeText v @ ''</'' @ name @ ''>'')"

text \<open>A \<open>Fault\<close>: the element name is that of the \<open>XMLName\<close> tag, with its name space.\<close>

definition marshal_Fault :: "Fault \<Rightarrow> string" where
  "marshal_Fault f =
     ''<Fault xmlns=\"'' @ EscapeText ''http://schemas.xmlsoap.org/soap/envelope/'' @ ''\">''
     @ marshal_field ''faultcode'' (Code f)
     @ marshal_field ''faultstring'' (String f)
     @ marshal_field ''faultactor'' (Actor f)
     @ marshal_field ''detail'' (Detail f)
     @ ''</Fault>''"

text \<open>
  The envelope: the root with the attributes, the \<open>Header\<close> field (a struct, so it is
  written whatever its slice holds), and the \<open>Body\<close> field, whose \<open>Fault\<close> and \<open>Content\<close>
  are left out when nil.
\<close>

definition marshal_Request :: "attr_prefix \<Rightarrow> ('h \<Rightarrow> error + string) \<Rightarrow> ('c \<Rightarrow> error + string)
    \<Rightarrow> xml_Attr list \<Rightarrow> 'h list option \<Rightarrow> Fault option \<Rightarrow> 'c option \<Rightarrow> error + string" where
  "marshal_Request pfx ench encc attrs header fault content =
     (case marshal_slice ench (case header of None \<Rightarrow> [] | Some hs \<Rightarrow> hs) of
        Inl err \<Rightarrow> Inl err
      | Inr hs \<Rightarrow>
          (case (case content of None \<Rightarrow> Inr [] | Some c \<Rightarrow> encc c) of
             Inl err \<Rightarrow> Inl err
           | Inr cs \<Rightarrow>
               Inr (''<soapenv:Envelope'' @ write_attrs pfx [] attrs @ ''>''
                    @ ''<soapenv:Header>'' @ hs @ ''</soapenv:Header>''
                    @ ''<soapenv:Body>''
                    @ (case fault of None \<Rightarrow> [] | Some f \<Rightarrow> marshal_Fault f)
                    @ cs
                    @ ''</soapenv:Body>''
                    @ ''</soapenv:Envelope>'')))"

definition Serialize :: "attr_prefix \<Rightarrow> ('h \<Rightarrow> error + string) \<Rightarrow> ('c \<Rightarrow> error + string)
    \<Rightarrow> ('c, 'h) Request \<Rightarrow> error + string" where
  "Serialize pfx ench encc r =
     marshal_Request pfx ench encc (Attributes r) (Header r) (Body_Fault r) (Body_Content r)"

definition Serialize1 :: "attr_prefix \<Rightarrow> ('h \<Rightarrow> error + string) \<Rightarrow> ('c \<Rightarrow> error + string)
    \<Rightarrow> ('c, 'h) Request1 \<Rightarrow> error + string" where
  "Serialize1 pfx ench encc r =
     marshal_Request pfx ench encc (Attributes1 r) (Header1 r) (Body_Fault1 r) (Body_Content1 r)"

section \<open>Client\<close>

record Client =
  base :: string
  debug :: bool
  c_username :: string
  c_password :: string
  c_bearerToken :: string
  c_userAgent :: string
  c_contentType :: string
  c_action :: string

text \<open>
  The part of an \<open>http.Request\<close> the call writes. A header maps a key to its list of
  values: \<open>Add\<close> appends, \<open>Set\<close> replaces, \<open>Get\<close> reads the first value. The library
  brings every key to its canonical form first; the four keys used here stay distinct
  under it and are written as the code writes them.
\<close>

type_synonym http_Header = "string \<rightharpoonup> string list"

record http_Request =
  Method :: string
  URL :: string
  HeaderMap :: http_Header
  ReqBody :: string
  Close :: bool

definition Header_Add :: "http_Header \<Rightarrow> string \<Rightarrow> string \<Rightarrow> http_Header" where
  "Header_Add h key v = h(key \<mapsto> (case h key of None \<Rightarrow> [v] | Some vs \<Rightarrow> vs @ [v]))"

definition Header_Set :: "http_Header \<Rightarrow> string \<Rightarrow> string \<Rightarrow> http_Header" where
  "Header_Set h key v = h(key \<mapsto> [v])"

definition Header_Get :: "http_Header \<Rightarrow> string \<Rightarrow> string" where
  "Header_Get h key = (case h key of None \<Rightarrow> [] | Some [] \<Rightarrow> [] | Some (v # vs) \<Rightarrow> v)"

text \<open>
  The lines of \<open>CallWithContext\<close> between \<open>http.NewRequestWithContext\<close> and
  \<open>c.httpClient.Do\<close>: the request that is sent, one definition for each of the
  \<open>if\<close> statements, in their order. \<open>b64\<close> is the library's base64 encoding used by
  \<open>SetBasicAuth\<close>.
\<close>

definition SetBasicAuth :: "(string \<Rightarrow> string) \<Rightarrow> http_Request \<Rightarrow> string \<Rightarrow> string \<Rightarrow> http_Request" where
  "SetBasicAuth b64 httpReq username' password' =
     httpReq\<lparr>HeaderMap := Header_Set (HeaderMap httpReq) ''Authorization''
                 (''Basic '' @ b64 (username' @ '':'' @ password'))\<rparr>"

definition add_content_type :: "Client \<Rightarrow> ('c, 'h) Request \<Rightarrow> http_Request \<Rightarrow> http_Request" where
  "add_content_type c soapReq httpReq =
     (if contentType soapReq \<noteq> [] then
        httpReq\<lparr>HeaderMap := Header_Add (HeaderMap httpReq) ''Content-Type'' (contentType soapReq)\<rparr>
      else if c_contentType c \<noteq> [] then
        httpReq\<lparr>HeaderMap := Header_Add (HeaderMap httpReq) ''Content-Type'' (c_contentType c)\<rparr>
      else
        httpReq\<lparr>HeaderMap := Header_Add (HeaderMap httpReq) ''Content-Type''
                   ''text/xml; charset=\"utf-8\"''\<rparr>)"

definition add_action :: "Client \<Rightarrow> ('c, 'h) Request \<Rightarrow> http_Request \<Rightarrow> http_Request" where
  "add_action c soapReq httpReq =
     (if action soapReq \<noteq> [] then
        httpReq\<lparr>HeaderMap := Header_Add (HeaderMap httpReq) ''SOAPAction'' (action soapReq)\<rparr>
      else if c_action c \<noteq> [] then
        httpReq\<lparr>HeaderMap := Header_Add (HeaderMap httpReq) ''SOAPAction'' (c_action c)\<rparr>
      else httpReq)"

definition set_user_agent :: "Client \<Rightarrow> ('c, 'h) Request \<Rightarrow> http_Request \<Rightarrow> http_Request" where
  "set_user_agent c soapReq httpReq =
     (if userAgent soapReq \<noteq> [] then
        httpReq\<lparr>HeaderMap := Header_Set (HeaderMap httpReq) ''User-Agent'' (userAgent soapReq)\<rparr>
      else if c_userAgent c \<noteq> [] then
        httpReq\<lparr>HeaderMap := Header_Add (HeaderMap httpReq) ''User-Agent'' (c_userAgent c)\<rparr>
      else
        httpReq\<lparr>HeaderMap := Header_Set (HeaderMap httpReq) ''User-Agent'' ''Go''\<rparr>)"

definition set_basic_auth :: "(string \<Rightarrow> string) \<Rightarrow> Client \<Rightarrow> ('c, 'h) Request \<Rightarrow> http_Request
    \<Rightarrow> http_Request" where
  "set_basic_auth b64 c soapReq httpReq =
     (if username soapReq \<noteq> [] then
        SetBasicAuth b64 httpReq (username soapReq) (password soapReq)
      else if c_username c \<noteq> [] then
        SetBasicAuth b64 httpReq (c_username c) (c_password c)
      else httpReq)"

definition set_bearer :: "Client \<Rightarrow> ('c, 'h) Request \<Rightarrow> http_Request \<Rightarrow> http_Request" where
  "set_bearer c soapReq httpReq =
     (if bearerToken soapReq \<noteq> [] then
        httpReq\<lparr>HeaderMap := Header_Set (HeaderMap httpReq) ''Authorization''
                   (''Bearer '' @ bearerToken soapReq)\<rparr>
      else if c_bearerToken c \<noteq> [] then
        httpReq\<lparr>HeaderMap := Header_Set (HeaderMap httpReq) ''Authorization''
                   (''Bearer '' @ c_bearerToken c)\<rparr>
      else httpReq)"

definition outbound_request :: "(string \<Rightarrow> string) \<Rightarrow> Client \<Rightarrow> ('c, 'h) Request \<Rightarrow> string
    \<Rightarrow> http_Request" where
  "outbound_request b64 c soapReq buffer =
     (let url = base c @ path soapReq;
          httpReq = \<lparr>Method = ''POST'', URL = url, HeaderMap = Map.empty, ReqBody = buffer,
                     Close = False\<rparr>;
          httpReq = add_content_type c soapReq httpReq;
          httpReq = add_action c soapReq httpReq;
          httpReq = set_user_agent c soapReq httpReq;
          httpReq = httpReq\<lparr>Close := True\<rparr>;
          httpReq = set_basic_auth b64 c soapReq httpReq;
          httpReq = set_bearer c soapReq httpReq
      in httpReq)"

text \<open>
  What the call needs from outside the repository: the encoder's parameters of
  \<open>Serialize\<close>, the error of \<open>http.NewRequestWithContext\<close> for a URL (if any), the
  transport \<open>Do\<close>, which gives an error or a response whose body reads as an error or as
  bytes, and the decoder's parameters of \<open>Parse\<close>. Debug printing reaches nothing the
  call returns and is left out.
\<close>

record ('c, 'h, 'r) library =
  lib_pfx :: attr_prefix
  lib_ench :: "'h \<Rightarrow> error + string"
  lib_encc :: "'c \<Rightarrow> error + string"
  lib_b64 :: "string \<Rightarrow> string"
  lib_newreq :: "string \<Rightarrow> error option"
  lib_Do :: "http_Request \<Rightarrow> error + (error + string)"
  lib_tok :: tokenizer
  lib_dc :: "'r content_decoder"

definition CallWithContext :: "('c, 'h, 'r) library \<Rightarrow> Client \<Rightarrow> ('c, 'h) Request \<Rightarrow> 'r option
    \<Rightarrow> error option \<times> 'r option" where
  "CallWithContext lib c soapReq response =
     (case Serialize (lib_pfx lib) (lib_ench lib) (lib_encc lib) soapReq of
        Inl err \<Rightarrow> (Some err, response)
      | Inr buffer \<Rightarrow>
          (case lib_newreq lib (base c @ path soapReq) of
             Some err \<Rightarrow> (Some err, response)
           | None \<Rightarrow>
               (case lib_Do lib (outbound_request (lib_b64 lib) c soapReq buffer) of
                  Inl err \<Rightarrow> (Some err, response)
                | Inr res \<Rightarrow>
                    (case res of
                       Inl err \<Rightarrow> (Some err, response)
                     | Inr rawbody \<Rightarrow>
                         if length rawbody = 0 then (None, response)
                         else
                           (case Parse (lib_tok lib) (lib_dc lib) rawbody response of
                              (Some err, dest) \<Rightarrow> (Some err, dest)
                            | (None, dest) \<Rightarrow> (None, dest))))))"

definition Call :: "('c, 'h, 'r) library \<Rightarrow> Client \<Rightarrow> ('c, 'h) Request \<Rightarrow> 'r option
    \<Rightarrow> error option \<times> 'r option" where
  "Call lib c request response = CallWithContext lib c request response"

section \<open>Shapes of a response\<close>

text \<open>The child elements among a list of tokens, and the \<open>Body\<close> children of an envelope.\<close>

fun elements :: "xml_node list \<Rightarrow> xml_node list" where
  "elements [] = []"
| "elements (Element n as cs # ts) = Element n as cs # elements ts"
| "elements (_ # ts) = elements ts"

fun body_elements :: "xml_node list \<Rightarrow> xml_node list" where
  "body_elements [] = []"
| "body_elements (Element n as cs # ts) =
     (if Local n = ''Body'' then Element n as cs # body_elements ts else body_elements ts)"
| "body_elements (_ # ts) = body_elements ts"

fun is_soap_fault :: "xml_node \<Rightarrow> bool" where
  "is_soap_fault (Element n as cs) = (Space n = soapenv_ns \<and> Local n = ''Fault'')"
| "is_soap_fault _ = False"

section \<open>Concrete responses\<close>

text \<open>
  Responses used to evaluate the definitions: a \<open>Fault\<close> element, an envelope around a
  given body, a tokenizer that reads one fixed byte string as a given document, and a
  decoder for a destination that is a string and receives the local name of the element
  decoded into it.
\<close>

definition ex_fault_element :: xml_node where
  "ex_fault_element =
     Element (Name soapenv_ns ''Fault'') []
       [Element (Name [] ''faultcode'') [] [CharData ''Server.Error''],
        Element (Name [] ''faultstring'') [] [CharData ''boom''],
        Element (Name [] ''faultactor'') [] [CharData ''svc'']]"

definition ex_envelope :: "xml_node list \<Rightarrow> xml_node" where
  "ex_envelope body =
     Element (Name soapenv_ns ''Envelope'') []
       [Element (Name soapenv_ns ''Body'') [] body]"

definition ex_tok :: "xml_node \<Rightarrow> tokenizer" where
  "ex_tok doc data = (if data = ''<response>'' then Inr doc else Inl (LibError ''EOF''))"

definition ex_dc :: "string content_decoder" where
  "ex_dc se c =
     (case se of
        Element n as cs \<Rightarrow> (None, Local n)
      | _ \<Rightarrow> (Some (LibError ''expected start element''), c))"

definition ex_two_elements :: "xml_node list" where
  "ex_two_elements = [Element (Name [] ''a'') [] [], Element (Name [] ''b'') [] []]"

section \<open>What Parse returns, by the first child element of the body\<close>

text \<open>
  The result of \<open>Parse\<close> on a body whose child elements are \<open>e\<close> followed by \<open>es\<close>, as the
  scan computes it: used to state the properties below.
\<close>

definition fault_of :: "xml_node \<Rightarrow> Fault" where
  "fault_of se = snd (decode_Fault se Fault_zero)"

definition first_child_result :: "'c content_decoder \<Rightarrow> xml_node \<Rightarrow> xml_node list \<Rightarrow> 'c
    \<Rightarrow> error option \<times> 'c option" where
  "first_child_result dc e es d =
     (if is_soap_fault e then
        ((if es = [] then Some (FaultError (fault_of e)) else Some multiple_elements), Some d)
      else
        (case dc e d of
           (Some err, d') \<Rightarrow> (Some err, Some d')
         | (None, d') \<Rightarrow> ((if es = [] then None else Some multiple_elements), Some d')))"

definition ex_other_fault :: xml_node where
  "ex_other_fault = Element (Name ''urn:example'' ''Fault'') [] [CharData ''payload'']"

section \<open>Applying options\<close>

text \<open>
  A caller applies options to a request one after another, each to the request the one
  before it returned.
\<close>

fun apply_options :: "('c, 'h) request_option list \<Rightarrow> ('c, 'h) Request \<Rightarrow> ('c, 'h) Request" where
  "apply_options [] request = request"
| "apply_options (option # options) request = apply_options options (snd (option request))"

definition has_soapenv :: "xml_Attr list \<Rightarrow> bool" where
  "has_soapenv attrs = (''soapenv'' \<in> set (map (\<lambda>a. Local (AttrName a)) attrs))"

section \<open>A concrete library\<close>

text \<open>
  A library whose transport answers every request with an empty body and whose
  tokenizer reports an error on every input, as the decoder does at the end of input.
\<close>

definition ex_lib :: "(string, string, string) library" where
  "ex_lib = \<lparr>lib_pfx = (\<lambda>written space. []),
             lib_ench = (\<lambda>h. Inr h),
             lib_encc = (\<lambda>c. Inr c),
             lib_b64 = (\<lambda>s. s),
             lib_newreq = (\<lambda>url. None),
             lib_Do = (\<lambda>req. Inr (Inr [])),
             lib_tok = (\<lambda>data. Inl (LibError ''EOF'')),
             lib_dc = ex_dc\<rparr>"

definition ex_request_bytes :: string where
  "ex_request_bytes =
     ''<soapenv:Envelope soapenv=\"http://schemas.xmlsoap.org/soap/envelope/\"><soapenv:Header></soapenv:Header><soapenv:Body></soapenv:Body></soapenv:Envelope>''"

definition ex_client :: Client where
  "ex_client = \<lparr>base = ''http://localhost'', debug = False, c_username = [], c_password = [],
                c_bearerToken = [], c_userAgent = [], c_contentType = [], c_action = []\<rparr>"

section \<open>Concrete requests read back\<close>

text \<open>
  A request whose content is a \<open>Fault\<close> value and one whose content is an element
  \<open>item\<close>, both with two header elements; the bytes \<open>Serialize\<close> writes for them; and the
  document the decoder's tokenizer delivers for those bytes (a prefix that no \<open>xmlns\<close>
  attribute declares stays in \<open>Space\<close>; \<open>xmlns="..."\<close> sets the name space of the element
  and of its children). \<open>ex_reader bytes doc\<close> reads exactly \<open>bytes\<close>, as \<open>doc\<close>.
\<close>

definition ex_reader :: "string \<Rightarrow> xml_node \<Rightarrow> tokenizer" where
  "ex_reader bytes doc data = (if data = bytes then Inr doc else Inl (LibError ''EOF''))"




definition ex_read_envelope :: "xml_node list \<Rightarrow> xml_node" where
  "ex_read_envelope body =
     Element (Name ''soapenv'' ''Envelope'') [Attr (Name [] ''soapenv'') soapenv_ns]
       [Element (Name ''soapenv'' ''Header'') []
          [Element (Name [] ''h1'') [] [], Element (Name [] ''h2'') [] []],
        Element (Name ''soapenv'' ''Body'') [] body]"




section \<open>Serializing and parsing back\<close>

text \<open>
  A request is serialized and the bytes are handed to \<open>Parse\<close> with a destination that
  holds \<open>d\<close>; when \<open>Serialize\<close> fails, its error is the result.
\<close>

definition round_trip :: "attr_prefix \<Rightarrow> ('h \<Rightarrow> error + string) \<Rightarrow> ('c \<Rightarrow> error + string)
    \<Rightarrow> tokenizer \<Rightarrow> 'r content_decoder \<Rightarrow> ('c, 'h) Request \<Rightarrow> 'r \<Rightarrow> error option \<times> 'r option" where
  "round_trip pfx ench encc tok dc r d =
     (case Serialize pfx ench encc r of
        Inl err \<Rightarrow> (Some err, Some d)
      | Inr bytes \<Rightarrow> Parse tok dc bytes (Some d))"

text \<open>What the tokenizer reads from the pieces of the concrete requests.\<close>

definition ex_fragments :: "string \<Rightarrow> xml_node list" where
  "ex_fragments bytes =
     (if bytes = ''<item></item>'' then [Element (Name [] ''item'') [] []]
      else if bytes = ''<h1></h1><h2></h2>''
        then [Element (Name [] ''h1'') [] [], Element (Name [] ''h2'') [] []]
      else if bytes = ''<a></a><b></b>'' then ex_two_elements
      else [])"

definition ex_two_request_bytes :: string where
  "ex_two_request_bytes =
     ''<soapenv:Envelope soapenv=\"http://schemas.xmlsoap.org/soap/envelope/\"><soapenv:Header><h1></h1><h2></h2></soapenv:Header><soapenv:Body><a></a><b></b></soapenv:Body></soapenv:Envelope>''"

section \<open>Attribute slices in memory\<close>

text \<open>
  \<open>AddAttributes\<close> filters \<open>request.Attributes\<close> in place
  (\<open>filtered := requestAttributes[:0]\<close>) and then reads the slice it was given, so what it
  computes depends on whether the two share an array. Here the slices are modelled with
  their arrays: an array has a capacity and the cells written so far, the heap is the
  list of arrays, a slice points to an array and has a length (every slice of this code
  starts at the first cell), and \<open>None\<close> is the nil slice. \<open>append\<close> writes in place when
  the capacity allows and allocates otherwise; the capacity of a new array is at least
  what is needed, and how much more is the parameter \<open>grow\<close>.
\<close>

record array =
  cap :: nat
  cells :: "xml_Attr list"

type_synonym heap = "array list"

record slice =
  ptr :: nat
  len :: nat

type_synonym growth = "nat \<Rightarrow> nat \<Rightarrow> nat"

definition slice_contents :: "heap \<Rightarrow> slice option \<Rightarrow> xml_Attr list" where
  "slice_contents h s = (case s of None \<Rightarrow> [] | Some s \<Rightarrow> take (len s) (cells (h ! ptr s)))"

definition append_slice :: "growth \<Rightarrow> heap \<Rightarrow> slice option \<Rightarrow> xml_Attr list \<Rightarrow> heap \<times> slice option" where
  "append_slice grow h s xs =
     (case s of
        None \<Rightarrow>
          if xs = [] then (h, None)
          else (h @ [\<lparr>cap = max (length xs) (grow 0 (length xs)), cells = xs\<rparr>],
                Some \<lparr>ptr = length h, len = length xs\<rparr>)
      | Some s \<Rightarrow>
          (let a = h ! ptr s; n = len s + length xs
           in if n \<le> cap a then
                (h[ptr s := a\<lparr>cells := take (len s) (cells a) @ xs @ drop n (cells a)\<rparr>],
                 Some (s\<lparr>len := n\<rparr>))
              else
                (h @ [\<lparr>cap = max n (grow (cap a) n), cells = take (len s) (cells a) @ xs\<rparr>],
                 Some \<lparr>ptr = length h, len = n\<rparr>)))"

text \<open>A slice literal, as \<open>NewRequest\<close> and a call with listed arguments make one.\<close>

definition new_slice :: "heap \<Rightarrow> xml_Attr list \<Rightarrow> heap \<times> slice option" where
  "new_slice h xs =
     (h @ [\<lparr>cap = length xs, cells = xs\<rparr>], Some \<lparr>ptr = length h, len = length xs\<rparr>)"

text \<open>
  One turn of the loop \<open>for _, attribute := range requestAttributes\<close>: the element is
  read from the array when its turn comes.
\<close>

definition filter_step :: "growth \<Rightarrow> slice \<Rightarrow> nat \<Rightarrow> heap \<times> slice option \<Rightarrow> heap \<times> slice option" where
  "filter_step grow requestAttributes i st =
     (case st of (h, filtered) \<Rightarrow>
        (let attribute = cells (h ! ptr requestAttributes) ! i
         in if Local (AttrName attribute) \<noteq> ''soapenv''
            then append_slice grow h filtered [attribute]
            else (h, filtered)))"

text \<open>
  \<open>AddAttributes\<close> on slices in memory: \<open>found\<close> is computed from the heap \<open>h0\<close> in which
  the option is made, the function returned runs on the heap in which it is applied.
\<close>

definition AddAttributes_mem :: "growth \<Rightarrow> slice option \<Rightarrow> heap
    \<Rightarrow> heap \<Rightarrow> slice option \<Rightarrow> heap \<times> slice option" where
  "AddAttributes_mem grow attributes h0 =
     (let found = find_soapenv (slice_contents h0 attributes) False
      in (\<lambda>h requestAttributes.
            case (if found then
                    (case requestAttributes of
                       None \<Rightarrow> (h, None)
                     | Some ra \<Rightarrow> fold (filter_step grow ra) [0..<len ra] (h, Some (ra\<lparr>len := 0\<rparr>)))
                  else (h, requestAttributes)) of
              (h', requestAttributes') \<Rightarrow>
                append_slice grow h' requestAttributes' (slice_contents h' attributes)))"

text \<open>
  A request made by \<open>NewRequest\<close>, then \<open>AddAttributes\<close> of one attribute \<open>ns1\<close>, then
  \<open>AddAttributes(request.Attributes...)\<close>, which hands the option the request's own
  slice.
\<close>

definition ex_self_append :: "growth \<Rightarrow> heap \<times> slice option" where
  "ex_self_append grow =
     (case new_slice [] [Attr (Name [] ''soapenv'') ''http://schemas.xmlsoap.org/soap/envelope/''] of
        (h1, attrs1) \<Rightarrow>
          (case new_slice h1 [Attr (Name [] ''ns1'') ''urn:example''] of
             (h2, args) \<Rightarrow>
               (case AddAttributes_mem grow args h2 h2 attrs1 of
                  (h3, attrs3) \<Rightarrow> AddAttributes_mem grow attrs3 h3 h3 attrs3)))"

abbreviation not_soapenv :: "xml_Attr \<Rightarrow> bool" where
  "not_soapenv a \<equiv> Local (AttrName a) \<noteq> ''soapenv''"

text \<open>
  A slice is in order in a heap when its array is there and its length is within the
  cells written, which are within the capacity. Two slices are apart when they do not
  point to the same array.
\<close>

definition slice_ok :: "heap \<Rightarrow> slice option \<Rightarrow> bool" where
  "slice_ok h s =
     (case s of
        None \<Rightarrow> True
      | Some s \<Rightarrow> ptr s < length h \<and> len s \<le> length (cells (h ! ptr s))
                   \<and> length (cells (h ! ptr s)) \<le> cap (h ! ptr s))"

definition apart :: "slice option \<Rightarrow> slice option \<Rightarrow> bool" where
  "apart s t = (case s of None \<Rightarrow> True | Some s' \<Rightarrow> (case t of None \<Rightarrow> True | Some t' \<Rightarrow> ptr s' \<noteq> ptr t'))"

section \<open>Properties of the body scan\<close>

lemma elements_idem: "elements (elements ts) = elements ts"
proof (induction ts)
  case Nil
  show ?case by simp
next
  case (Cons t ts)
  then show ?case by (cases t) simp_all
qed

lemma body_loop_consumed:
  "body_loop dc ts True b dest =
     ((if elements ts = [] then None else Some multiple_elements), b, dest)"
proof (induction ts)
  case Nil
  show ?case by simp
next
  case (Cons t ts)
  show ?case by (cases t) (simp_all add: Cons.IH)
qed

lemma body_loop_skip:
  "body_loop dc ts False b dest = body_loop dc (elements ts) False b dest"
proof (induction ts)
  case Nil
  show ?case by simp
next
  case (Cons t ts)
  show ?case
  proof (cases t)
    case (Element n as cs)
    then show ?thesis
      by (simp add: body_loop_consumed elements_idem Let_def split: prod.splits option.splits)
  qed (simp_all add: Cons.IH)
qed

section \<open>Properties of Parse on an envelope with one body\<close>

lemma body_elements_Local:
  "Element n as cs \<in> set (body_elements ts) \<Longrightarrow> Local n = ''Body''"
proof (induction ts)
  case Nil
  then show ?case by simp
next
  case (Cons t ts)
  then show ?case by (cases t) (auto split: if_splits)
qed

lemma envelope_fields_bodies:
  "envelope_fields dc ts b dest = envelope_fields dc (body_elements ts) b dest"
proof (induction ts arbitrary: b dest)
  case Nil
  show ?case by simp
next
  case (Cons t ts)
  show ?case
  proof (cases t)
    case (Element n as cs)
    then show ?thesis
      using Cons.IH by (simp split: prod.splits option.splits)
  qed (simp_all add: Cons.IH)
qed

lemma envelope_single_body:
  assumes "body_elements ecs = [Element bn bas bcs]"
  shows "envelope_fields dc ecs b dest = UnmarshalXML dc bcs b dest"
proof -
  have "Element bn bas bcs \<in> set (body_elements ecs)" using assms by simp
  then have L: "Local bn = ''Body''" by (rule body_elements_Local)
  have "envelope_fields dc ecs b dest = envelope_fields dc [Element bn bas bcs] b dest"
    using envelope_fields_bodies [of dc ecs b dest] assms by simp
  also have "\<dots> = UnmarshalXML dc bcs b dest"
    using L by (simp split: prod.splits option.splits)
  finally show ?thesis .
qed

lemma Parse_single_body:
  assumes "tok data = Inr (Element en eas ecs)" and "Local en = ''Envelope''"
    and "body_elements ecs = [Element bn bas bcs]"
  shows "Parse tok dc data v =
     (case UnmarshalXML dc bcs \<lparr>Fault = None, Content = v\<rparr> v of
        (Some err, b, dest) \<Rightarrow> (Some err, dest)
      | (None, b, dest) \<Rightarrow>
          (case Fault b of
             Some fault \<Rightarrow> (Some (FaultError fault), dest)
           | None \<Rightarrow> (None, dest)))"
  using assms by (simp add: Parse_def Unmarshal_Envelope_def envelope_single_body)

section \<open>Fault priority\<close>

text \<open>
  Claim C1. A response whose body holds one child element, a \<open>Fault\<close> in the SOAP
  envelope name space with code \<open>Server.Error\<close>, actor \<open>svc\<close> and string \<open>boom\<close>: \<open>Parse\<close>
  returns that fault as its error, the message of the error is
  \<open>Soap Fault: Server.Error: [svc] boom\<close>, and the destination holds what it held before.
\<close>

theorem Parse_fault_only:
  assumes "tok data = Inr (Element en eas ecs)" and "Local en = ''Envelope''"
    and "body_elements ecs = [Element bn bas bcs]"
    and "elements bcs = [Element fn fas fcs]"
    and "Space fn = soapenv_ns" and "Local fn = ''Fault''"
    and "Code (fault_fields fcs (Fault_zero\<lparr>XMLName := fn\<rparr>)) = ''Server.Error''"
    and "Actor (fault_fields fcs (Fault_zero\<lparr>XMLName := fn\<rparr>)) = ''svc''"
    and "String (fault_fields fcs (Fault_zero\<lparr>XMLName := fn\<rparr>)) = ''boom''"
  shows "Parse tok dc data (Some d) =
           (Some (FaultError (fault_fields fcs (Fault_zero\<lparr>XMLName := fn\<rparr>))), Some d)
       \<and> error_message (FaultError (fault_fields fcs (Fault_zero\<lparr>XMLName := fn\<rparr>)))
           = ''Soap Fault: Server.Error: [svc] boom''"
proof -
  let ?f = "fault_fields fcs (Fault_zero\<lparr>XMLName := fn\<rparr>)"
  have U: "UnmarshalXML dc bcs \<lparr>Fault = None, Content = Some d\<rparr> (Some d) =
        (None, \<lparr>Fault = Some ?f, Content = None\<rparr>, Some d)"
    using assms(4-6)
    by (simp add: UnmarshalXML_def body_loop_skip [of dc bcs] decode_Fault_def)
  have P: "Parse tok dc data (Some d) = (Some (FaultError ?f), Some d)"
    by (simp add: Parse_single_body [where tok = tok and data = data, OF assms(1-3)] U)
  have M: "error_message (FaultError ?f) = ''Soap Fault: Server.Error: [svc] boom''"
    using assms(7-9) by (simp add: Fault_Error_def)
  show ?thesis using P M by simp
qed

text \<open>The theorem at the response \<open>ex_envelope [ex_fault_element]\<close>.\<close>

theorem Parse_fault_only_witness:
  "Parse (ex_tok (ex_envelope [ex_fault_element])) ex_dc ''<response>'' (Some ''unchanged'') =
     (Some (FaultError \<lparr>XMLName = Name soapenv_ns ''Fault'', Code = ''Server.Error'',
        String = ''boom'', Actor = ''svc'', Detail = []\<rparr>), Some ''unchanged'')"
  using Parse_fault_only [of "ex_tok (ex_envelope [ex_fault_element])" "''<response>''"
      "Name soapenv_ns ''Envelope''" "[]" "[Element (Name soapenv_ns ''Body'') [] [ex_fault_element]]"
      "Name soapenv_ns ''Body''" "[]" "[ex_fault_element]"
      "Name soapenv_ns ''Fault''" "[]"
      "[Element (Name [] ''faultcode'') [] [CharData ''Server.Error''],
        Element (Name [] ''faultstring'') [] [CharData ''boom''],
        Element (Name [] ''faultactor'') [] [CharData ''svc'']]" ex_dc "''unchanged''"]
  by (simp add: ex_tok_def ex_envelope_def ex_fault_element_def Fault_zero_def)

lemma elements_Cons_Element:
  "elements ts = e # es \<Longrightarrow> \<exists>n as cs. e = Element n as cs"
proof (induction ts)
  case Nil
  then show ?case by simp
next
  case (Cons t ts)
  then show ?case by (cases t) auto
qed

lemma elements_tail:
  "elements ts = e # es \<Longrightarrow> elements es = es"
proof -
  assume a: "elements ts = e # es"
  then obtain n as cs where e: "e = Element n as cs"
    using elements_Cons_Element by blast
  have "elements (e # es) = e # es" using elements_idem [of ts] a by simp
  then show ?thesis using e by simp
qed

lemma Parse_one_body:
  assumes "tok data = Inr (Element en eas ecs)" and "Local en = ''Envelope''"
    and "body_elements ecs = [Element bn bas bcs]"
  shows "Parse tok dc data (Some d) =
     (case elements bcs of
        [] \<Rightarrow> (None, Some d)
      | e # es \<Rightarrow> first_child_result dc e es d)"
proof (cases "elements bcs")
  case Nil
  then have "UnmarshalXML dc bcs \<lparr>Fault = None, Content = Some d\<rparr> (Some d) =
      (None, \<lparr>Fault = None, Content = Some d\<rparr>, Some d)"
    by (simp add: UnmarshalXML_def body_loop_skip [of dc bcs])
  then show ?thesis
    by (simp add: Parse_single_body [where tok = tok and data = data, OF assms] Nil)
next
  case (Cons e es)
  obtain n as cs where e: "e = Element n as cs"
    using elements_Cons_Element [OF Cons] by blast
  have es: "elements es = es" using elements_tail [OF Cons] .
  have U: "UnmarshalXML dc bcs \<lparr>Fault = None, Content = Some d\<rparr> (Some d) =
      body_loop dc (Element n as cs # es) False \<lparr>Fault = None, Content = Some d\<rparr> (Some d)"
    by (simp add: UnmarshalXML_def body_loop_skip [of dc bcs] Cons e)
  show ?thesis
  proof (cases "is_soap_fault e")
    case True
    then show ?thesis
      using e es
      by (simp add: Parse_single_body [where tok = tok and data = data, OF assms] Cons U
          first_child_result_def fault_of_def decode_Fault_def body_loop_consumed)
  next
    case False
    then show ?thesis
      using e es
      by (auto simp add: Parse_single_body [where tok = tok and data = data, OF assms] Cons U
          first_child_result_def body_loop_consumed split: prod.splits option.splits)
  qed
qed


section \<open>Multiple elements in the body\<close>

text \<open>
  Claim C2, as amended. For a response with one body and a destination decoder that does
  not itself return the multiple-elements error: \<open>Parse\<close> returns that error exactly when
  the body has two or more child elements and the first of them is a SOAP \<open>Fault\<close> or was
  decoded into the destination without error; a body with no child element gives no
  error and an unchanged destination; and when the multiple-elements error is returned,
  the destination holds what decoding the first child element left in it (its old value
  when that child is a SOAP \<open>Fault\<close>).
\<close>

theorem Parse_multiple_elements:
  assumes "tok data = Inr (Element en eas ecs)" and "Local en = ''Envelope''"
    and "body_elements ecs = [Element bn bas bcs]"
    and "\<forall>e c. fst (dc e c) \<noteq> Some multiple_elements"
  shows "(fst (Parse tok dc data (Some d)) = Some multiple_elements) =
           (2 \<le> length (elements bcs)
            \<and> (is_soap_fault (hd (elements bcs)) \<or> fst (dc (hd (elements bcs)) d) = None))
       \<and> (elements bcs = [] \<longrightarrow> Parse tok dc data (Some d) = (None, Some d))
       \<and> (fst (Parse tok dc data (Some d)) = Some multiple_elements \<longrightarrow>
            snd (Parse tok dc data (Some d)) =
              (if is_soap_fault (hd (elements bcs)) then Some d
               else Some (snd (dc (hd (elements bcs)) d))))"
proof -
  note P = Parse_one_body [where tok = tok and data = data, OF assms(1-3), of dc d]
  show ?thesis
  proof (cases "elements bcs")
    case Nil
    then show ?thesis using P by simp
  next
    case (Cons e es)
    have nd: "fst (dc e d) \<noteq> Some multiple_elements" using assms(4) by blast
    have len: "(2 \<le> length (e # es)) = (es \<noteq> [])" by (cases es) simp_all
    show ?thesis
    proof (cases "is_soap_fault e")
      case True
      then show ?thesis
        using P Cons len by (simp add: first_child_result_def multiple_elements_def)
    next
      case False
      obtain r d' where dc: "dc e d = (r, d')" by (cases "dc e d")
      show ?thesis
      proof (cases r)
        case None
        then show ?thesis
          using P Cons len False dc by (simp add: first_child_result_def)
      next
        case (Some err)
        then show ?thesis
          using P Cons len False dc nd by (simp add: first_child_result_def)
      qed
    qed
  qed
qed

lemma ex_dc_not_multiple: "\<forall>e c. fst (ex_dc e c) \<noteq> Some multiple_elements"
  by (simp add: ex_dc_def multiple_elements_def split: xml_node.splits)

theorem Parse_multiple_elements_witness:
  "Parse (ex_tok (ex_envelope [CharData ''  ''])) ex_dc ''<response>'' (Some ''unchanged'')
     = (None, Some ''unchanged'')
   \<and> fst (Parse (ex_tok (ex_envelope (CharData ''  '' # ex_two_elements))) ex_dc ''<response>'' (Some ''unchanged''))
     = Some multiple_elements
   \<and> snd (Parse (ex_tok (ex_envelope (CharData ''  '' # ex_two_elements))) ex_dc ''<response>'' (Some ''unchanged''))
     = Some ''a''"
  using Parse_multiple_elements [where tok = "ex_tok (ex_envelope (CharData ''  '' # ex_two_elements))"
      and data = "''<response>''" and dc = ex_dc and d = "''unchanged''"
      and en = "Name soapenv_ns ''Envelope''" and eas = "[]"
      and ecs = "[Element (Name soapenv_ns ''Body'') [] (CharData ''  '' # ex_two_elements)]"
      and bn = "Name soapenv_ns ''Body''" and bas = "[]"
      and bcs = "CharData ''  '' # ex_two_elements"]
    Parse_multiple_elements [where tok = "ex_tok (ex_envelope [CharData ''  ''])"
      and data = "''<response>''" and dc = ex_dc and d = "''unchanged''"
      and en = "Name soapenv_ns ''Envelope''" and eas = "[]"
      and ecs = "[Element (Name soapenv_ns ''Body'') [] [CharData ''  '']]"
      and bn = "Name soapenv_ns ''Body''" and bas = "[]"
      and bcs = "[CharData ''  '']"]
    ex_dc_not_multiple
  by (simp add: ex_tok_def ex_envelope_def ex_two_elements_def ex_dc_def)

text \<open>
  The claim as first stated fails: on a body with the two elements \<open>a\<close> and \<open>b\<close> the
  multiple-elements error is returned after \<open>a\<close> has been decoded into the destination.
\<close>

theorem Parse_populates_before_rejecting:
  "fst (Parse (ex_tok (ex_envelope ex_two_elements)) ex_dc ''<response>'' (Some ''unchanged''))
     = Some multiple_elements
   \<and> snd (Parse (ex_tok (ex_envelope ex_two_elements)) ex_dc ''<response>'' (Some ''unchanged''))
     = Some ''a''
   \<and> Some ''a'' \<noteq> Some ''unchanged''"
  by (simp add: Parse_def Unmarshal_Envelope_def UnmarshalXML_def ex_tok_def ex_envelope_def
      ex_two_elements_def ex_dc_def soapenv_ns_def)


lemma envelope_fields_nil_content:
  "Content b = None \<Longrightarrow> body_elements ts \<noteq> [] \<Longrightarrow>
   envelope_fields dc ts b dest =
     (Some (UnmarshalError ''Content must be a pointer to a struct''), b, dest)"
proof (induction ts)
  case Nil
  then show ?case by simp
next
  case (Cons t ts)
  then show ?case by (cases t) (auto simp add: UnmarshalXML_def split: if_splits)
qed

section \<open>A nil destination\<close>

text \<open>
  Claim C5. When the envelope has a \<open>Body\<close> element and the destination passed to \<open>Parse\<close>
  is nil, \<open>Parse\<close> returns the error \<open>Content must be a pointer to a struct\<close>; it does
  not return without an error.
\<close>

theorem Parse_nil_destination:
  assumes "tok data = Inr (Element en eas ecs)" and "Local en = ''Envelope''"
    and "body_elements ecs \<noteq> []"
  shows "Parse tok dc data None =
           (Some (UnmarshalError ''Content must be a pointer to a struct''), None)"
  using assms
  by (simp add: Parse_def Unmarshal_Envelope_def envelope_fields_nil_content)

theorem Parse_nil_destination_witness:
  "Parse (ex_tok (ex_envelope ex_two_elements)) ex_dc ''<response>'' None =
     (Some (UnmarshalError ''Content must be a pointer to a struct''), None)"
  using Parse_nil_destination [where tok = "ex_tok (ex_envelope ex_two_elements)"
      and data = "''<response>''" and dc = ex_dc
      and en = "Name soapenv_ns ''Envelope''" and eas = "[]"
      and ecs = "[Element (Name soapenv_ns ''Body'') [] ex_two_elements]"]
  by (simp add: ex_tok_def ex_envelope_def)

section \<open>A Fault element of another name space\<close>

text \<open>
  Claim C10, as amended. When the first child element of the body has the local name
  \<open>Fault\<close> and a name space other than the SOAP envelope's, \<open>Parse\<close> does not take it for
  a protocol fault: the element is decoded into the destination as the content, and
  \<open>Parse\<close> returns no error exactly when that decoding returns none and no other child
  element follows.
\<close>

theorem Parse_other_Fault:
  assumes "tok data = Inr (Element en eas ecs)" and "Local en = ''Envelope''"
    and "body_elements ecs = [Element bn bas bcs]"
    and "elements bcs = Element n as cs # es"
    and "Local n = ''Fault''" and "Space n \<noteq> soapenv_ns"
  shows "snd (Parse tok dc data (Some d)) = Some (snd (dc (Element n as cs) d))
       \<and> (fst (Parse tok dc data (Some d)) = None) =
           (fst (dc (Element n as cs) d) = None \<and> es = [])"
proof -
  note P = Parse_one_body [where tok = tok and data = data, OF assms(1-3), of dc d]
  obtain r d' where dc: "dc (Element n as cs) d = (r, d')" by (cases "dc (Element n as cs) d")
  show ?thesis
    using P assms(4-6) dc by (cases r) (simp_all add: first_child_result_def)
qed

theorem Parse_other_Fault_witness:
  "Parse (ex_tok (ex_envelope [ex_other_fault])) ex_dc ''<response>'' (Some ''unchanged'')
     = (None, Some ''Fault'')"
proof -
  have "snd (Parse (ex_tok (ex_envelope [ex_other_fault])) ex_dc ''<response>'' (Some ''unchanged''))
          = Some ''Fault''
      \<and> fst (Parse (ex_tok (ex_envelope [ex_other_fault])) ex_dc ''<response>'' (Some ''unchanged''))
          = None"
    using Parse_other_Fault [where tok = "ex_tok (ex_envelope [ex_other_fault])"
      and data = "''<response>''" and dc = ex_dc and d = "''unchanged''"
      and en = "Name soapenv_ns ''Envelope''" and eas = "[]"
      and ecs = "[Element (Name soapenv_ns ''Body'') [] [ex_other_fault]]"
      and bn = "Name soapenv_ns ''Body''" and bas = "[]"
      and bcs = "[ex_other_fault]" and n = "Name ''urn:example'' ''Fault''" and as = "[]"
      and cs = "[CharData ''payload'']" and es = "[]"]
    by (simp add: ex_tok_def ex_envelope_def ex_other_fault_def ex_dc_def soapenv_ns_def)
  then show ?thesis by (simp add: prod_eq_iff)
qed

text \<open>
  The claim as first stated fails when another element follows: the first child is
  decoded as content and the second is rejected.
\<close>

theorem Parse_other_Fault_then_element:
  "Parse (ex_tok (ex_envelope [ex_other_fault, Element (Name [] ''b'') [] []])) ex_dc ''<response>''
      (Some ''unchanged'')
     = (Some multiple_elements, Some ''Fault'')"
  by (simp add: Parse_def Unmarshal_Envelope_def UnmarshalXML_def ex_tok_def ex_envelope_def
      ex_other_fault_def ex_dc_def soapenv_ns_def)


section \<open>Headers of the outbound request\<close>

lemma user_agent_kept:
  "HeaderMap (set_bearer c soapReq httpReq) ''User-Agent'' = HeaderMap httpReq ''User-Agent''"
  "HeaderMap (set_basic_auth b64 c soapReq httpReq) ''User-Agent'' = HeaderMap httpReq ''User-Agent''"
  by (simp_all add: set_bearer_def set_basic_auth_def SetBasicAuth_def Header_Set_def)

lemma content_type_kept:
  "HeaderMap (set_bearer c soapReq httpReq) ''Content-Type'' = HeaderMap httpReq ''Content-Type''"
  "HeaderMap (set_basic_auth b64 c soapReq httpReq) ''Content-Type'' = HeaderMap httpReq ''Content-Type''"
  "HeaderMap (set_user_agent c soapReq httpReq) ''Content-Type'' = HeaderMap httpReq ''Content-Type''"
  "HeaderMap (add_action c soapReq httpReq) ''Content-Type'' = HeaderMap httpReq ''Content-Type''"
  by (simp_all add: set_bearer_def set_basic_auth_def SetBasicAuth_def Header_Set_def
      set_user_agent_def add_action_def Header_Add_def)

lemma user_agent_absent:
  "HeaderMap httpReq ''User-Agent'' = None \<Longrightarrow>
   HeaderMap (add_action c soapReq httpReq) ''User-Agent'' = None"
  "HeaderMap httpReq ''User-Agent'' = None \<Longrightarrow>
   HeaderMap (add_content_type c soapReq httpReq) ''User-Agent'' = None"
  by (simp_all add: add_action_def add_content_type_def Header_Add_def)

lemma set_user_agent_value:
  "HeaderMap httpReq ''User-Agent'' = None \<Longrightarrow>
   HeaderMap (set_user_agent c soapReq httpReq) ''User-Agent'' =
     Some [if userAgent soapReq \<noteq> [] then userAgent soapReq
           else if c_userAgent c \<noteq> [] then c_userAgent c
           else ''Go'']"
  by (simp add: set_user_agent_def Header_Add_def Header_Set_def)

lemma add_content_type_value:
  "HeaderMap httpReq ''Content-Type'' = None \<Longrightarrow>
   HeaderMap (add_content_type c soapReq httpReq) ''Content-Type'' =
     Some [if contentType soapReq \<noteq> [] then contentType soapReq
           else if c_contentType c \<noteq> [] then c_contentType c
           else ''text/xml; charset=\"utf-8\"'']"
  by (simp add: add_content_type_def Header_Add_def)


text \<open>
  The request that \<open>outbound_request\<close> builds carries the layered \<open>User-Agent\<close> and
  \<open>Content-Type\<close>.
\<close>

lemma outbound_request_layering:
  "Header_Get (HeaderMap (outbound_request b64 c soapReq buffer)) ''User-Agent'' =
     (if userAgent soapReq \<noteq> [] then userAgent soapReq
      else if c_userAgent c \<noteq> [] then c_userAgent c
      else ''Go'')
   \<and> Header_Get (HeaderMap (outbound_request b64 c soapReq buffer)) ''Content-Type'' =
     (if contentType soapReq \<noteq> [] then contentType soapReq
      else if c_contentType c \<noteq> [] then c_contentType c
      else ''text/xml; charset=\"utf-8\"'')"
proof -
  let ?r0 = "\<lparr>Method = ''POST'', URL = base c @ path soapReq, HeaderMap = Map.empty,
              ReqBody = buffer, Close = False\<rparr>"
  have ua: "HeaderMap (outbound_request b64 c soapReq buffer) ''User-Agent'' =
     Some [if userAgent soapReq \<noteq> [] then userAgent soapReq
           else if c_userAgent c \<noteq> [] then c_userAgent c
           else ''Go'']"
    unfolding outbound_request_def Let_def
    by (simp add: user_agent_kept user_agent_absent set_user_agent_value)
  have ct: "HeaderMap (outbound_request b64 c soapReq buffer) ''Content-Type'' =
     Some [if contentType soapReq \<noteq> [] then contentType soapReq
           else if c_contentType c \<noteq> [] then c_contentType c
           else ''text/xml; charset=\"utf-8\"'']"
    unfolding outbound_request_def Let_def
    by (simp add: content_type_kept add_content_type_value)
  show ?thesis
    unfolding Header_Get_def ua ct by simp
qed

lemma Serialize_ex_request:
  "Serialize pfx ench encc (NewRequest ''/service'' None None []) =
     Inr ''<soapenv:Envelope soapenv=\"http://schemas.xmlsoap.org/soap/envelope/\"><soapenv:Header></soapenv:Header><soapenv:Body></soapenv:Body></soapenv:Envelope>''"
  by (simp add: Serialize_def marshal_Request_def NewRequest_def EscapeText_def)

text \<open>
  Claim C8. In every call that gets as far as the transport, the request the transport
  receives has as \<open>User-Agent\<close> the request's own value when that is not empty, else the
  client's default when that is not empty, else \<open>Go\<close>, and as \<open>Content-Type\<close> the same
  layering with the fallback \<open>text/xml; charset="utf-8"\<close>. It is stated through the
  call: a transport that answers with the header it received makes the call return that
  header; and for every transport \<open>Do\<close> the call is what follows from the answer of \<open>Do\<close>
  to that one request.
\<close>

theorem CallWithContext_outbound_headers:
  assumes "Serialize (lib_pfx lib) (lib_ench lib) (lib_encc lib) soapReq = Inr buffer"
    and "lib_newreq lib (base c @ path soapReq) = None"
  shows "CallWithContext (lib\<lparr>lib_Do := (\<lambda>httpReq. Inl (TransportError
             (Header_Get (HeaderMap httpReq) ''User-Agent'')))\<rparr>) c soapReq response =
           (Some (TransportError
              (if userAgent soapReq \<noteq> [] then userAgent soapReq
               else if c_userAgent c \<noteq> [] then c_userAgent c
               else ''Go'')), response)
       \<and> CallWithContext (lib\<lparr>lib_Do := (\<lambda>httpReq. Inl (TransportError
             (Header_Get (HeaderMap httpReq) ''Content-Type'')))\<rparr>) c soapReq response =
           (Some (TransportError
              (if contentType soapReq \<noteq> [] then contentType soapReq
               else if c_contentType c \<noteq> [] then c_contentType c
               else ''text/xml; charset=\"utf-8\"'')), response)
       \<and> CallWithContext (lib\<lparr>lib_Do := Do\<rparr>) c soapReq response =
           (case Do (outbound_request (lib_b64 lib) c soapReq buffer) of
              Inl err \<Rightarrow> (Some err, response)
            | Inr (Inl err) \<Rightarrow> (Some err, response)
            | Inr (Inr rawbody) \<Rightarrow>
                if rawbody = [] then (None, response)
                else Parse (lib_tok lib) (lib_dc lib) rawbody response)"
proof -
  have a: "CallWithContext (lib\<lparr>lib_Do := D\<rparr>) c soapReq response =
           (case D (outbound_request (lib_b64 lib) c soapReq buffer) of
              Inl err \<Rightarrow> (Some err, response)
            | Inr (Inl err) \<Rightarrow> (Some err, response)
            | Inr (Inr rawbody) \<Rightarrow>
                if rawbody = [] then (None, response)
                else Parse (lib_tok lib) (lib_dc lib) rawbody response)" for D
    using assms
    by (simp add: CallWithContext_def split: sum.splits prod.splits option.splits)
  show ?thesis
    using outbound_request_layering [of "lib_b64 lib" c soapReq buffer]
    by (simp add: a)
qed


text \<open>
  The theorem at a client with default user agent \<open>A\<close>: a request with user agent \<open>B\<close>
  is sent with \<open>B\<close>, a request without one with \<open>A\<close>, and without either default the
  request is sent with \<open>Go\<close>.
\<close>

theorem CallWithContext_outbound_headers_witness:
  "CallWithContext (ex_lib\<lparr>lib_Do := (\<lambda>httpReq. Inl (TransportError
       (Header_Get (HeaderMap httpReq) ''User-Agent'')))\<rparr>)
     (ex_client\<lparr>c_userAgent := ''A''\<rparr>)
     (snd (UserAgent ''B'' (NewRequest ''/service'' None None []))) (Some ''unchanged'')
   = (Some (TransportError ''B''), Some ''unchanged'')
   \<and> CallWithContext (ex_lib\<lparr>lib_Do := (\<lambda>httpReq. Inl (TransportError
       (Header_Get (HeaderMap httpReq) ''User-Agent'')))\<rparr>)
     (ex_client\<lparr>c_userAgent := ''A''\<rparr>)
     (NewRequest ''/service'' None None []) (Some ''unchanged'')
   = (Some (TransportError ''A''), Some ''unchanged'')
   \<and> CallWithContext (ex_lib\<lparr>lib_Do := (\<lambda>httpReq. Inl (TransportError
       (Header_Get (HeaderMap httpReq) ''User-Agent'')))\<rparr>)
     ex_client (NewRequest ''/service'' None None []) (Some ''unchanged'')
   = (Some (TransportError ''Go''), Some ''unchanged'')"
proof -
  have S: "Serialize (lib_pfx ex_lib) (lib_ench ex_lib) (lib_encc ex_lib)
        (NewRequest ''/service'' None None []) = Inr ex_request_bytes"
    unfolding ex_request_bytes_def by (rule Serialize_ex_request)
  have SB: "Serialize (lib_pfx ex_lib) (lib_ench ex_lib) (lib_encc ex_lib)
        (snd (UserAgent ''B'' (NewRequest ''/service'' None None []))) = Inr ex_request_bytes"
    using S by (simp add: Serialize_def UserAgent_def)
  have N: "lib_newreq ex_lib url = None" for url by (simp add: ex_lib_def)
  have B: "userAgent (snd (UserAgent ''B'' (NewRequest ''/service'' None None []))) = ''B''"
    by (simp add: UserAgent_def)
  have E: "userAgent (NewRequest ''/service'' None None [] :: (string, string) Request) = []"
    by (simp add: NewRequest_def)
  show ?thesis
    using CallWithContext_outbound_headers [OF SB N, of "ex_client\<lparr>c_userAgent := ''A''\<rparr>"
        "Some ''unchanged''"]
      CallWithContext_outbound_headers [OF S N, of "ex_client\<lparr>c_userAgent := ''A''\<rparr>"
        "Some ''unchanged''"]
      CallWithContext_outbound_headers [OF S N, of ex_client "Some ''unchanged''"]
    by (simp add: B E ex_client_def)
qed


section \<open>An empty response body\<close>

text \<open>
  Claim C4. When the request is serialized and sent and the response body has no bytes,
  the call returns no error and the destination keeps its value; this holds whatever
  the tokenizer and the destination decoder are, so the empty bytes do not reach
  \<open>Parse\<close>.
\<close>

theorem CallWithContext_empty_body:
  assumes "Serialize (lib_pfx lib) (lib_ench lib) (lib_encc lib) soapReq = Inr buffer"
    and "lib_newreq lib (base c @ path soapReq) = None"
    and "lib_Do lib (outbound_request (lib_b64 lib) c soapReq buffer) = Inr (Inr [])"
  shows "CallWithContext (lib\<lparr>lib_tok := tok', lib_dc := dc'\<rparr>) c soapReq response = (None, response)"
  using assms by (simp add: CallWithContext_def)


text \<open>
  The theorem at a library whose tokenizer rejects the empty input: \<open>Parse\<close> would return
  an error there, the call returns none.
\<close>

theorem CallWithContext_empty_body_witness:
  "CallWithContext ex_lib ex_client (NewRequest ''/service'' None None []) (Some ''unchanged'')
     = (None, Some ''unchanged'')
   \<and> Parse (lib_tok ex_lib) (lib_dc ex_lib) [] (Some ''unchanged'')
     = (Some (LibError ''EOF''), Some ''unchanged'')"
proof -
  have "CallWithContext (ex_lib\<lparr>lib_tok := lib_tok ex_lib, lib_dc := lib_dc ex_lib\<rparr>) ex_client
          (NewRequest ''/service'' None None []) (Some ''unchanged'')
        = (None, Some ''unchanged'')"
    by (rule CallWithContext_empty_body [OF Serialize_ex_request]) (simp_all add: ex_lib_def)
  moreover have "Parse (lib_tok ex_lib) (lib_dc ex_lib) [] (Some ''unchanged'')
      = (Some (LibError ''EOF''), Some ''unchanged'')"
    by (simp add: ex_lib_def Parse_def Unmarshal_Envelope_def)
  ultimately show ?thesis by simp
qed


section \<open>The soapenv attribute\<close>

lemma find_soapenv_iff: "find_soapenv attrs found = (found \<or> has_soapenv attrs)"
  by (induction attrs arbitrary: found) (auto simp add: has_soapenv_def)

lemma remove_soapenv_filter:
  "remove_soapenv attrs filtered =
     filtered @ filter (\<lambda>a. Local (AttrName a) \<noteq> ''soapenv'') attrs"
  by (induction attrs arbitrary: filtered) simp_all

lemma has_soapenv_append: "has_soapenv (xs @ ys) = (has_soapenv xs \<or> has_soapenv ys)"
  by (auto simp add: has_soapenv_def)

lemma AddAttributes_Attributes:
  "Attributes (snd (AddAttributes attrs request)) =
     (if has_soapenv attrs
      then filter (\<lambda>a. Local (AttrName a) \<noteq> ''soapenv'') (Attributes request)
      else Attributes request) @ attrs"
  by (simp add: AddAttributes_def Let_def find_soapenv_iff remove_soapenv_filter)

lemma AddAttributes_keeps_soapenv:
  "has_soapenv (Attributes request) \<Longrightarrow>
   has_soapenv (Attributes (snd (AddAttributes attrs request)))"
  by (simp add: AddAttributes_Attributes has_soapenv_append)

lemma apply_AddAttributes_keeps_soapenv:
  "has_soapenv (Attributes request) \<Longrightarrow>
   has_soapenv (Attributes (apply_options (map AddAttributes attrss) request))"
proof (induction attrss arbitrary: request)
  case Nil
  then show ?case by simp
next
  case (Cons attrs attrss)
  have "has_soapenv (Attributes (snd (AddAttributes attrs request)))"
    using Cons.prems by (rule AddAttributes_keeps_soapenv)
  then show ?case using Cons.IH by simp
qed

lemma NewRequest_Attributes:
  "Attributes (NewRequest path' body header options) =
     [Attr (Name [] ''soapenv'') ''http://schemas.xmlsoap.org/soap/envelope/'']"
  by (simp add: NewRequest_def Let_def)

text \<open>
  With the attributes taken as values, a request made by \<open>NewRequest\<close> has an attribute
  with local name \<open>soapenv\<close> after any sequence of \<open>AddAttributes\<close> options has been
  applied to it.
\<close>

lemma soapenv_present_by_value:
  "has_soapenv (Attributes (apply_options (map AddAttributes attrss)
      (NewRequest path' body header options)))"
  by (rule apply_AddAttributes_keeps_soapenv) (simp add: NewRequest_Attributes has_soapenv_def)

text \<open>
  Claim C7. The claim asks that a \<open>soapenv\<close> attribute given at construction replaces the
  default. \<open>NewRequest\<close> takes the options and does not apply them: constructed with
  \<open>AddAttributes\<close> of \<open>soapenv = X\<close>, the request keeps the default attribute and the
  serialized root carries the default value.
\<close>

theorem NewRequest_drops_AddAttributes:
  "Attributes (NewRequest ''/service'' None None [AddAttributes [Attr (Name [] ''soapenv'') ''X'']])
     = [Attr (Name [] ''soapenv'') ''http://schemas.xmlsoap.org/soap/envelope/'']
   \<and> Serialize pfx ench encc
        (NewRequest ''/service'' None None [AddAttributes [Attr (Name [] ''soapenv'') ''X'']])
     = Inr ''<soapenv:Envelope soapenv=\"http://schemas.xmlsoap.org/soap/envelope/\"><soapenv:Header></soapenv:Header><soapenv:Body></soapenv:Body></soapenv:Envelope>''"
  by (simp add: Serialize_def marshal_Request_def NewRequest_def EscapeText_def)

text \<open>
  The option does what the claim says once it is applied to the request, and the first
  version of the constructor, which takes the attributes themselves, does too.
\<close>

lemma AddAttributes_replaces_default:
  "Attributes (snd (AddAttributes [Attr (Name [] ''soapenv'') x]
      (NewRequest path' body header options))) = [Attr (Name [] ''soapenv'') x]"
  by (simp add: AddAttributes_Attributes NewRequest_Attributes has_soapenv_def)

lemma NewRequest1_explicit_soapenv:
  "Attributes1 (NewRequest1 path' body header action' [Attr (Name [] ''soapenv'') x])
     = [Attr (Name [] ''soapenv'') x]"
  by (simp add: NewRequest1_def Let_def)

lemma NewRequest1_default_soapenv:
  "\<not> has_soapenv attrs \<Longrightarrow>
   Attributes1 (NewRequest1 path' body header action' attrs)
     = attrs @ [Attr (Name [] ''soapenv'') ''http://schemas.xmlsoap.org/soap/envelope/'']"
  by (simp add: NewRequest1_def Let_def find_soapenv_iff)

section \<open>The Header element\<close>

text \<open>
  The \<open>Header\<close> field is a struct, which the encoder always writes: a request without
  header elements is serialized with an empty \<open>Header\<close> element.
\<close>

lemma Serialize_Header_without_elements:
  assumes "Serialize pfx ench encc r = Inr out" and "Header r = None"
  shows "\<exists>pre post. out = pre @ ''<soapenv:Header></soapenv:Header>'' @ post"
proof -
  obtain cs where out: "out = (''<soapenv:Envelope'' @ write_attrs pfx [] (Attributes r) @ ''>'')
      @ ''<soapenv:Header></soapenv:Header>''
      @ (''<soapenv:Body>'' @ (case Body_Fault r of None \<Rightarrow> [] | Some f \<Rightarrow> marshal_Fault f)
         @ cs @ ''</soapenv:Body>'' @ ''</soapenv:Envelope>'')"
    using assms by (auto simp add: Serialize_def marshal_Request_def split: sum.splits)
  show ?thesis using out by blast
qed


text \<open>
  Claim C3. The claim asks that a request constructed with no header elements is
  serialized without any \<open>Header\<close> element. The output of \<open>Serialize\<close> for such a request
  holds \<open><soapenv:Header></soapenv:Header>\<close>.
\<close>

theorem Serialize_writes_empty_Header:
  "Serialize pfx ench (\<lambda>c. Inr c) (NewRequest ''/service'' (Some ''<ping></ping>'') None [])
     = Inr ''<soapenv:Envelope soapenv=\"http://schemas.xmlsoap.org/soap/envelope/\"><soapenv:Header></soapenv:Header><soapenv:Body><ping></ping></soapenv:Body></soapenv:Envelope>''"
  by (simp add: Serialize_def marshal_Request_def NewRequest_def EscapeText_def)



section \<open>Serializing a request and parsing it back\<close>






text \<open>
  A content that is written as two elements does not come back either: the first is
  decoded and the second is rejected.
\<close>

lemma two_elements_do_not_round_trip:
  "round_trip (\<lambda>written space. []) Inr Inr
      (ex_reader ex_two_request_bytes (ex_read_envelope (ex_fragments ''<a></a><b></b>''))) ex_dc
      (NewRequest ''/service'' (Some ''<a></a><b></b>'') (Some [''<h1></h1>'', ''<h2></h2>'']) [])
      ''unset''
     = (Some multiple_elements, Some ''a'')"
proof -
  have S: "Serialize (\<lambda>written space. []) Inr Inr
      (NewRequest ''/service'' (Some ''<a></a><b></b>'') (Some [''<h1></h1>'', ''<h2></h2>'']) [])
      = Inr ex_two_request_bytes"
    by (simp add: Serialize_def marshal_Request_def NewRequest_def EscapeText_def
        ex_two_request_bytes_def)
  have P: "Parse (ex_reader ex_two_request_bytes (ex_read_envelope (ex_fragments ''<a></a><b></b>'')))
        ex_dc ex_two_request_bytes (Some ''unset'') = (Some multiple_elements, Some ''a'')"
    by (simp add: Parse_def Unmarshal_Envelope_def UnmarshalXML_def ex_reader_def
        ex_read_envelope_def ex_fragments_def ex_two_elements_def ex_dc_def soapenv_ns_def)
  show ?thesis unfolding round_trip_def S using P by simp
qed


section \<open>AddAttributes on slices in memory\<close>

text \<open>
  The loop that filters in place keeps, in the first cells of the array, the elements
  read so far that are not \<open>soapenv\<close>, and leaves the cells not yet read as they were.
\<close>

lemma filter_in_place:
  assumes p: "ptr ra < length h"
    and n: "len ra \<le> length (cells (h ! ptr ra))"
    and c: "length (cells (h ! ptr ra)) \<le> cap (h ! ptr ra)"
    and i: "i \<le> len ra"
  shows "\<exists>w cs. fold (filter_step grow ra) [0..<i] (h, Some (ra\<lparr>len := 0\<rparr>)) =
            (h[ptr ra := (h ! ptr ra)\<lparr>cells := cs\<rparr>], Some (ra\<lparr>len := w\<rparr>))
          \<and> w \<le> i \<and> length cs = length (cells (h ! ptr ra))
          \<and> take w cs = filter not_soapenv (take i (cells (h ! ptr ra)))
          \<and> drop i cs = drop i (cells (h ! ptr ra))"
  using i
proof (induction i)
  case 0
  have "h[ptr ra := (h ! ptr ra)\<lparr>cells := cells (h ! ptr ra)\<rparr>] = h" by simp
  then show ?case
    by (intro exI [of _ 0] exI [of _ "cells (h ! ptr ra)"]) simp
next
  case (Suc i)
  let ?cs0 = "cells (h ! ptr ra)"
  from Suc obtain w cs where
    st: "fold (filter_step grow ra) [0..<i] (h, Some (ra\<lparr>len := 0\<rparr>)) =
            (h[ptr ra := (h ! ptr ra)\<lparr>cells := cs\<rparr>], Some (ra\<lparr>len := w\<rparr>))"
    and w: "w \<le> i" and l: "length cs = length ?cs0"
    and t: "take w cs = filter not_soapenv (take i ?cs0)"
    and d: "drop i cs = drop i ?cs0"
    by auto
  have il: "i < length ?cs0" using Suc.prems n by simp
  have ic: "i < length cs" using il l by simp
  have x: "cs ! i = ?cs0 ! i"
    using d ic il by (metis nth_via_drop Cons_nth_drop_Suc)
  have ts: "take (Suc i) ?cs0 = take i ?cs0 @ [?cs0 ! i]"
    using il by (simp add: take_Suc_conv_app_nth)
  have step: "fold (filter_step grow ra) [0..<Suc i] (h, Some (ra\<lparr>len := 0\<rparr>)) =
      filter_step grow ra i (h[ptr ra := (h ! ptr ra)\<lparr>cells := cs\<rparr>], Some (ra\<lparr>len := w\<rparr>))"
    using st by simp
  show ?case
  proof (cases "not_soapenv (?cs0 ! i)")
    case False
    have "filter_step grow ra i (h[ptr ra := (h ! ptr ra)\<lparr>cells := cs\<rparr>], Some (ra\<lparr>len := w\<rparr>))
        = (h[ptr ra := (h ! ptr ra)\<lparr>cells := cs\<rparr>], Some (ra\<lparr>len := w\<rparr>))"
      using False x p by (simp add: filter_step_def)
    moreover have "take w cs = filter not_soapenv (take (Suc i) ?cs0)"
      using t ts False by simp
    moreover have "drop (Suc i) cs = drop (Suc i) ?cs0"
      using d by (metis drop_Suc tl_drop)
    ultimately show ?thesis
      using step w l by (intro exI [of _ w] exI [of _ cs]) simp
  next
    case True
    have wc: "w < length cs" using w ic by simp
    have fit: "Suc w \<le> cap (h ! ptr ra)" using wc l c by simp
    have new: "take w cs @ [?cs0 ! i] @ drop (Suc w) cs = cs[w := ?cs0 ! i]"
      using wc by (simp add: upd_conv_take_nth_drop)
    have "filter_step grow ra i (h[ptr ra := (h ! ptr ra)\<lparr>cells := cs\<rparr>], Some (ra\<lparr>len := w\<rparr>))
        = (h[ptr ra := (h ! ptr ra)\<lparr>cells := cs[w := ?cs0 ! i]\<rparr>], Some (ra\<lparr>len := Suc w\<rparr>))"
      using True x p fit new by (simp add: filter_step_def append_slice_def Let_def)
    moreover have "take (Suc w) (cs[w := ?cs0 ! i]) = filter not_soapenv (take (Suc i) ?cs0)"
      using t ts True wc by (simp add: take_Suc_conv_app_nth)
    moreover have "drop (Suc i) (cs[w := ?cs0 ! i]) = drop (Suc i) ?cs0"
      using d w by (metis drop_Suc tl_drop drop_update_cancel less_Suc_eq_le)
    ultimately show ?thesis
      using step w l
      by (intro exI [of _ "Suc w"] exI [of _ "cs[w := ?cs0 ! i]"]) simp
  qed
qed


lemma append_slice_contents:
  assumes "slice_ok h s"
  shows "slice_contents (fst (append_slice grow h s xs)) (snd (append_slice grow h s xs))
         = slice_contents h s @ xs"
proof (cases s)
  case None
  then show ?thesis
    by (simp add: append_slice_def slice_contents_def)
next
  case (Some s')
  then have ok: "ptr s' < length h" "len s' \<le> length (cells (h ! ptr s'))"
    using assms by (simp_all add: slice_ok_def)
  show ?thesis
    using Some ok by (simp add: append_slice_def slice_contents_def Let_def)
qed

text \<open>
  When the slice given to the option and \<open>request.Attributes\<close> are apart, the function in
  memory computes what \<open>AddAttributes\<close> on values computes.
\<close>

lemma AddAttributes_mem_apart:
  assumes ra: "slice_ok h ra" and at: "slice_ok h attrs" and ap: "apart attrs ra"
  shows "slice_contents (fst (AddAttributes_mem grow attrs h h ra))
           (snd (AddAttributes_mem grow attrs h h ra))
         = (if has_soapenv (slice_contents h attrs)
            then filter not_soapenv (slice_contents h ra)
            else slice_contents h ra) @ slice_contents h attrs"
proof (cases "has_soapenv (slice_contents h attrs)")
  case False
  then show ?thesis
    using append_slice_contents [OF ra]
    by (simp add: AddAttributes_mem_def find_soapenv_iff)
next
  case found: True
  show ?thesis
  proof (cases ra)
    case None
    then show ?thesis
      using found append_slice_contents [of h None]
      by (simp add: AddAttributes_mem_def find_soapenv_iff slice_ok_def slice_contents_def)
  next
    case (Some r)
    let ?cs0 = "cells (h ! ptr r)"
    have p: "ptr r < length h" and n: "len r \<le> length ?cs0" and c: "length ?cs0 \<le> cap (h ! ptr r)"
      using ra Some by (simp_all add: slice_ok_def)
    obtain w cs where
      st: "fold (filter_step grow r) [0..<len r] (h, Some (r\<lparr>len := 0\<rparr>)) =
            (h[ptr r := (h ! ptr r)\<lparr>cells := cs\<rparr>], Some (r\<lparr>len := w\<rparr>))"
      and w: "w \<le> len r" and l: "length cs = length ?cs0"
      and t: "take w cs = filter not_soapenv (take (len r) ?cs0)"
      using filter_in_place [OF p n c order_refl, of grow] by blast
    let ?h' = "h[ptr r := (h ! ptr r)\<lparr>cells := cs\<rparr>]"
    have same: "slice_contents ?h' attrs = slice_contents h attrs"
    proof (cases attrs)
      case None
      then show ?thesis by (simp add: slice_contents_def)
    next
      case (Some a)
      then have "ptr a \<noteq> ptr r" using ap \<open>ra = Some r\<close> by (simp add: apart_def)
      then show ?thesis using Some by (simp add: slice_contents_def)
    qed
    have ok': "slice_ok ?h' (Some (r\<lparr>len := w\<rparr>))"
      using p w n l c by (simp add: slice_ok_def)
    have filt: "slice_contents ?h' (Some (r\<lparr>len := w\<rparr>)) = filter not_soapenv (slice_contents h ra)"
      using t p Some by (simp add: slice_contents_def)
    have "AddAttributes_mem grow attrs h h ra =
        append_slice grow ?h' (Some (r\<lparr>len := w\<rparr>)) (slice_contents h attrs)"
      using found Some st same by (simp add: AddAttributes_mem_def find_soapenv_iff)
    then show ?thesis
      using append_slice_contents [OF ok', of grow "slice_contents h attrs"] filt found by simp
  qed
qed


lemma upt_2: "[0..<2] = [0, Suc 0]"
  by (simp add: numeral_2_eq_2)

text \<open>
  Claim C9. The claim asks that a request made by \<open>NewRequest\<close> keeps an attribute with
  local name \<open>soapenv\<close> through any sequence of \<open>AddAttributes\<close> options. When an option is
  made from the request's own slice, \<open>AddAttributes(request.Attributes...)\<close>, the filter
  overwrites the cells the option then reads: after \<open>AddAttributes\<close> of \<open>ns1\<close> and that
  option, the request holds \<open>ns1\<close> three times and no \<open>soapenv\<close>, whatever the growth of
  arrays.
\<close>

theorem self_append_loses_soapenv:
  "slice_contents (fst (ex_self_append grow)) (snd (ex_self_append grow)) =
     [Attr (Name [] ''ns1'') ''urn:example'', Attr (Name [] ''ns1'') ''urn:example'',
      Attr (Name [] ''ns1'') ''urn:example'']
   \<and> \<not> has_soapenv (slice_contents (fst (ex_self_append grow)) (snd (ex_self_append grow)))"
proof -
  have "slice_contents (fst (ex_self_append grow)) (snd (ex_self_append grow)) =
     [Attr (Name [] ''ns1'') ''urn:example'', Attr (Name [] ''ns1'') ''urn:example'',
      Attr (Name [] ''ns1'') ''urn:example'']"
  proof (cases "3 \<le> max 2 (grow 1 2)")
    case True
    then show ?thesis
      by (simp add: ex_self_append_def new_slice_def AddAttributes_mem_def slice_contents_def
          append_slice_def filter_step_def upt_2 Let_def)
  next
    case False
    then show ?thesis
      by (simp add: ex_self_append_def new_slice_def AddAttributes_mem_def slice_contents_def
          append_slice_def filter_step_def upt_2 Let_def)
  qed
  then show ?thesis by (simp add: has_soapenv_def)
qed

end
